theory Spec2Isabelle
  imports Complex_Main "HOL-Library.Sublist"
begin

section \<open>JavaScript primitives used by the summarizers\<close>

text \<open>
  Strings are byte lists (UTF-8); integers of the program (line numbers, hit counts,
  page numbers) are \<open>int\<close>; coverage percentages, which the program holds as finite
  doubles, are exact rationals. \<open>NaN\<close> and the infinities are not values of the model.
\<close>

definition digit_char :: "nat \<Rightarrow> char" where
  "digit_char d = char_of (48 + d)"

fun show_nat :: "nat \<Rightarrow> string" where
  "show_nat n = (if n < 10 then [digit_char n] else show_nat (n div 10) @ [digit_char (n mod 10)])"

declare show_nat.simps [simp del]

text \<open>\<open>String(n)\<close> (template interpolation) of an integer.\<close>

definition show_int :: "int \<Rightarrow> string" where
  "show_int i = (if i < 0 then ''-'' @ show_nat (nat (- i)) else show_nat (nat i))"

text \<open>\<open>Array.prototype.join\<close>.\<close>

fun js_join :: "string \<Rightarrow> string list \<Rightarrow> string" where
  "js_join sep [] = []"
| "js_join sep [x] = x"
| "js_join sep (x # y # ys) = x @ sep @ js_join sep (y # ys)"

text \<open>\<open>String.prototype.repeat\<close>.\<close>

fun js_repeat :: "string \<Rightarrow> nat \<Rightarrow> string" where
  "js_repeat s 0 = []"
| "js_repeat s (Suc n) = s @ js_repeat s n"

text \<open>
  \<open>Number.prototype.toFixed(f)\<close> on a finite number below \<open>10^21\<close> in magnitude
  (ECMA-262, 21.1.3.3): the sign is split off, \<open>n\<close> is the integer nearest to
  \<open>|x| * 10^f\<close> (the larger one on a tie), its decimal digits are left-padded with
  zeros to \<open>f + 1\<close> digits and the point is put before the last \<open>f\<close> of them.
\<close>

definition toFixed :: "nat \<Rightarrow> rat \<Rightarrow> string" where
  "toFixed f x =
     (let n = nat \<lfloor>\<bar>x\<bar> * 10 ^ f + 1 / 2\<rfloor>;
          m = show_nat n;
          m' = (if f \<noteq> 0 \<and> length m \<le> f then replicate (f + 1 - length m) (CHR ''0'') @ m else m);
          k = length m';
          body = (if f \<noteq> 0 then take (k - f) m' @ ''.'' @ drop (k - f) m' else m')
      in (if x < 0 then ''-'' else '''') @ body)"

text \<open>
  \<open>x?.toFixed(f) + "%"\<close>: the optional call yields \<open>undefined\<close> on an absent
  receiver, and string concatenation prints \<open>undefined\<close> as the text \<open>undefined\<close>.
\<close>

definition js_concat_undef :: "string option \<Rightarrow> string \<Rightarrow> string" where
  "js_concat_undef v s = (case v of None \<Rightarrow> ''undefined'' @ s | Some t \<Rightarrow> t @ s)"

text \<open>\<open>String.prototype.split\<close> on a one-character separator.\<close>

primrec js_split :: "char \<Rightarrow> string \<Rightarrow> string list" where
  "js_split sep [] = [[]]"
| "js_split sep (c # cs) =
     (if c = sep then [] # js_split sep cs
      else (case js_split sep cs of [] \<Rightarrow> [[c]] | w # ws \<Rightarrow> (c # w) # ws))"

definition newline :: char where
  "newline = CHR 0x0A"

text \<open>
  \<open>parseFloat\<close> on the decimal forms without exponent: an optional sign, digits, an
  optional point with digits; the parse stops at the first character that does not
  fit, and a text with no digit at its start is \<open>NaN\<close> (\<open>None\<close>).
\<close>

definition is_digit :: "char \<Rightarrow> bool" where
  "is_digit c = ((48::nat) \<le> of_char c \<and> of_char c \<le> (57::nat))"

definition digits_value :: "string \<Rightarrow> nat" where
  "digits_value ds = foldl (\<lambda>acc c. 10 * acc + (of_char c - (48::nat))) 0 ds"

definition parseFloat :: "string \<Rightarrow> rat option" where
  "parseFloat s =
     (let (neg, r) = (case s of c # cs \<Rightarrow>
                        if c = CHR ''-'' then (True, cs)
                        else if c = CHR ''+'' then (False, cs) else (False, s)
                      | [] \<Rightarrow> (False, s));
          ip = takeWhile is_digit r;
          r1 = dropWhile is_digit r;
          fp = (case r1 of c # cs \<Rightarrow> if c = CHR ''.'' then takeWhile is_digit cs else [] | [] \<Rightarrow> []);
          v = of_nat (digits_value ip) + of_nat (digits_value fp) / 10 ^ length fp
      in if ip = [] \<and> fp = [] then None else Some (if neg then - v else v))"

text \<open>
  \<open>a || b\<close> on texts that may be \<open>undefined\<close>: the empty text is falsy as
  \<open>undefined\<close> is.
\<close>

definition js_or :: "string option \<Rightarrow> string option \<Rightarrow> string option" where
  "js_or a b = (case a of None \<Rightarrow> b | Some s \<Rightarrow> if s = [] then b else Some s)"

definition js_or_default :: "string option \<Rightarrow> string \<Rightarrow> string" where
  "js_or_default a d = (case a of None \<Rightarrow> d | Some s \<Rightarrow> if s = [] then d else s)"

section \<open>Data model (types.ts, constants.ts)\<close>

datatype Service = github | gitlab | bitbucket

definition service_name :: "Service \<Rightarrow> string" where
  "service_name s = (case s of github \<Rightarrow> ''github'' | gitlab \<Rightarrow> ''gitlab'' | bitbucket \<Rightarrow> ''bitbucket'')"

definition DEFAULT_SERVICE :: Service where
  "DEFAULT_SERVICE = github"

definition DEFAULT_PAGE_SIZE :: int where
  "DEFAULT_PAGE_SIZE = 25"

text \<open>
  A field the code reads through \<open>?.\<close>, \<open>??\<close> or a comparison with \<open>undefined\<close> is an
  \<open>option\<close>: \<open>None\<close> is the field missing from the backend's JSON.
\<close>

record CoverageTotals =
  files :: int
  lines :: int
  hits :: int
  misses :: int
  partials :: int
  coverage :: "rat option"
  branches :: int
  methods :: int
  complexity_total :: int
  complexity_ratio :: "rat option"

record PatchTotals =
  patch_hits :: int
  patch_misses :: int
  patch_partials :: int
  patch_coverage :: "rat option"

record LineCoverage =
  line_number :: int
  line_hits :: "int option"
  is_partial_hit :: "bool option"

record FileCoverageReport =
  file_name :: string
  file_totals :: "CoverageTotals option"
  line_coverage :: "LineCoverage list option"
  file_commit_sha :: string
  commit_file_url :: string

datatype CoverageTreeNode =
  CoverageTreeNode (node_name: string) (full_path: string) (node_coverage: "rat option")
    (node_lines: int) (node_hits: int) (node_misses: int)
    (children: "CoverageTreeNode list option")

record CommitAuthor =
  username :: "string option"
  author_name :: "string option"

datatype CommitState = complete | pending | error | skipped

record Commit =
  commitid :: string
  message :: "string option"
  timestamp :: string
  ci_passed :: "bool option"
  author :: "CommitAuthor option"
  branch :: "string option"
  commit_totals :: "CoverageTotals option"
  state :: CommitState

record Owner =
  owner_service :: Service
  owner_username :: string

record Repository =
  repo_name :: string
  repo_private :: bool
  repo_updatestamp :: "string option"
  repo_author :: Owner
  repo_language :: "string option"
  repo_branch :: string
  repo_active :: bool
  repo_activated :: bool
  repo_totals :: "CoverageTotals option"

record CommitReference =
  ref_commitid :: "string option"
  ref_branch :: "string option"

datatype PullState = pr_open | pr_closed | pr_merged

record PullRequest =
  pullid :: int
  title :: "string option"
  pull_state :: PullState
  pull_updatestamp :: "string option"
  pull_author :: "CommitAuthor option"
  pull_base :: "CommitReference option"
  pull_head :: "CommitReference option"

record 'a PaginatedResponse =
  count :: int
  next_cursor :: "string option"
  previous_cursor :: "string option"
  results :: "'a list"
  total_pages :: int

record FileStats =
  added :: int
  removed :: int

record FileChangeSummary =
  summary_hits :: int
  summary_misses :: int
  summary_partials :: int

record FileTotals =
  ft_base :: "CoverageTotals option"
  ft_head :: "CoverageTotals option"
  ft_patch :: "PatchTotals option"

record ComparisonFile =
  cf_name :: string
  cf_totals :: FileTotals
  has_diff :: bool
  stats :: "FileStats option"
  change_summary :: "FileChangeSummary option"

record ComparisonTotals =
  ct_base :: "CoverageTotals option"
  ct_head :: CoverageTotals
  ct_patch :: "PatchTotals option"

record CoverageComparison =
  base_commit :: "string option"
  head_commit :: string
  cmp_totals :: ComparisonTotals
  cmp_files :: "ComparisonFile list"
  untracked :: "string list"
  has_unmerged_base_commits :: bool

section \<open>Backend client (services/codecov-client.ts)\<close>

text \<open>
  What a \<open>try\<close> block can catch: an instance of \<open>CodecovApiError\<close> (message, status
  code, detail), another \<open>Error\<close> instance with its message (a \<open>TypeError\<close> among
  them), or a thrown value that is no \<open>Error\<close>.
\<close>

datatype thrown =
  CodecovApiError string "int option" "string option"
| PlainError string
| NonErrorValue

text \<open>What the HTTP transport throws: an axios error, another \<open>Error\<close>, or anything else.\<close>

record error_body =
  body_detail :: "string option"
  body_message :: "string option"

record http_error =
  status :: int
  data :: "error_body option"

datatype transport_failure =
  AxiosError "http_error option" string
| OtherError string
| OtherThrown

definition handleError :: "transport_failure \<Rightarrow> thrown" where
  "handleError err =
     (case err of
        AxiosError response axios_message \<Rightarrow>
          (let st = map_option status response;
               body = Option.bind response data;
               detail = js_or (Option.bind body body_detail) (Option.bind body body_message)
           in if st = Some 401 then
                CodecovApiError ''Authentication failed. Check your CODECOV_API_TOKEN.'' st detail
              else if st = Some 403 then
                CodecovApiError
                  ''Access denied. You may not have permission to access this resource.'' st detail
              else if st = Some 404 then
                CodecovApiError ''Resource not found. Check the owner, repo, or path.'' st detail
              else if st = Some 429 then
                CodecovApiError ''Rate limit exceeded. Try again later.'' st detail
              else
                CodecovApiError
                  (js_or_default detail (js_or_default (Some axios_message) ''Unknown API error''))
                  st detail)
      | OtherError m \<Rightarrow> CodecovApiError m None None
      | OtherThrown \<Rightarrow> CodecovApiError ''Unknown error occurred'' None None)"

record CodecovClient =
  apiToken :: string
  defaultService :: Service

text \<open>The constructor: it throws on an empty token and issues no request.\<close>

definition new_CodecovClient :: "string \<Rightarrow> Service \<Rightarrow> thrown + CodecovClient" where
  "new_CodecovClient token svc =
     (if token = [] then
        Inl (PlainError ''CODECOV_API_TOKEN is required. Set it as an environment variable.'')
      else Inr \<lparr>apiToken = token, defaultService = svc\<rparr>)"

text \<open>
  \<open>getCodecovClient\<close>: the first argument is \<open>process.env.CODECOV_API_TOKEN\<close>, the
  second the module's \<open>clientInstance\<close>; the result carries the new \<open>clientInstance\<close>.
\<close>

definition getCodecovClient ::
  "string option \<Rightarrow> CodecovClient option \<Rightarrow> thrown + (CodecovClient \<times> CodecovClient option)" where
  "getCodecovClient env_token existing =
     (case existing of
        Some c \<Rightarrow> Inr (c, Some c)
      | None \<Rightarrow>
          (if env_token = None \<or> env_token = Some [] then
             Inl (PlainError (''CODECOV_API_TOKEN environment variable is required. '' @
               ''Get your token from Codecov settings: Settings > Access > Generate Token''))
           else
             (case new_CodecovClient (the env_token) DEFAULT_SERVICE of
                Inl e \<Rightarrow> Inl e
              | Inr c \<Rightarrow> Inr (c, Some c))))"

definition getService :: "CodecovClient \<Rightarrow> Service option \<Rightarrow> Service" where
  "getService client service = (case service of Some s \<Rightarrow> s | None \<Rightarrow> defaultService client)"

text \<open>Query parameters: \<open>Record<string, string | number | boolean>\<close>.\<close>

datatype param_value = PStr string | PNum int | PBool bool

type_synonym params = "string \<rightharpoonup> param_value"

record request =
  url :: string
  query :: params

text \<open>\<open>if (v) params.k = v\<close> for a text and for a number: the guard is truthiness.\<close>

definition set_if_text :: "string \<Rightarrow> string option \<Rightarrow> params \<Rightarrow> params" where
  "set_if_text k v ps = (case v of None \<Rightarrow> ps | Some s \<Rightarrow> if s = [] then ps else ps(k \<mapsto> PStr s))"

definition set_if_number :: "string \<Rightarrow> int option \<Rightarrow> params \<Rightarrow> params" where
  "set_if_number k v ps = (case v of None \<Rightarrow> ps | Some n \<Rightarrow> if n = 0 then ps else ps(k \<mapsto> PNum n))"

text \<open>\<open>options?.pageSize || DEFAULT_PAGE_SIZE\<close>.\<close>

definition page_size_or_default :: "int option \<Rightarrow> int" where
  "page_size_or_default pageSize =
     (case pageSize of None \<Rightarrow> DEFAULT_PAGE_SIZE | Some n \<Rightarrow> if n = 0 then DEFAULT_PAGE_SIZE else n)"

record ListRepositoriesOptions =
  lr_service :: "Service option"
  lr_page :: "int option"
  lr_pageSize :: "int option"
  lr_active :: "bool option"
  lr_names :: "string list option"

definition listRepositories_params :: "ListRepositoriesOptions \<Rightarrow> params" where
  "listRepositories_params options =
     (let p0 = [''page_size'' \<mapsto> PNum (page_size_or_default (lr_pageSize options))];
          p1 = set_if_number ''page'' (lr_page options) p0;
          p2 = (case lr_active options of None \<Rightarrow> p1 | Some b \<Rightarrow> p1(''active'' \<mapsto> PBool b));
          p3 = (case lr_names options of None \<Rightarrow> p2
                | Some ns \<Rightarrow> if length ns = 0 then p2 else p2(''names'' \<mapsto> PStr (js_join '','' ns)))
      in p3)"

definition listRepositories_request ::
  "CodecovClient \<Rightarrow> string \<Rightarrow> ListRepositoriesOptions \<Rightarrow> request" where
  "listRepositories_request client owner options =
     \<lparr>url = ''/'' @ service_name (getService client (lr_service options)) @ ''/'' @ owner @ ''/repos/'',
      query = listRepositories_params options\<rparr>"

record ListCommitsOptions =
  lc_service :: "Service option"
  lc_page :: "int option"
  lc_pageSize :: "int option"
  lc_branch :: "string option"

definition listCommits_params :: "ListCommitsOptions \<Rightarrow> params" where
  "listCommits_params options =
     (let p0 = [''page_size'' \<mapsto> PNum (page_size_or_default (lc_pageSize options))];
          p1 = set_if_number ''page'' (lc_page options) p0;
          p2 = set_if_text ''branch'' (lc_branch options) p1
      in p2)"

definition listCommits_request ::
  "CodecovClient \<Rightarrow> string \<Rightarrow> string \<Rightarrow> ListCommitsOptions \<Rightarrow> request" where
  "listCommits_request client owner repo options =
     \<lparr>url = ''/'' @ service_name (getService client (lc_service options)) @ ''/'' @ owner @
             ''/repos/'' @ repo @ ''/commits/'',
      query = listCommits_params options\<rparr>"

definition pull_state_name :: "PullState \<Rightarrow> string" where
  "pull_state_name s = (case s of pr_open \<Rightarrow> ''open'' | pr_closed \<Rightarrow> ''closed'' | pr_merged \<Rightarrow> ''merged'')"

record ListPullRequestsOptions =
  lp_service :: "Service option"
  lp_page :: "int option"
  lp_pageSize :: "int option"
  lp_state :: "PullState option"

definition listPullRequests_params :: "ListPullRequestsOptions \<Rightarrow> params" where
  "listPullRequests_params options =
     (let p0 = [''page_size'' \<mapsto> PNum (page_size_or_default (lp_pageSize options))];
          p1 = set_if_number ''page'' (lp_page options) p0;
          p2 = set_if_text ''state'' (map_option pull_state_name (lp_state options)) p1
      in p2)"

definition listPullRequests_request ::
  "CodecovClient \<Rightarrow> string \<Rightarrow> string \<Rightarrow> ListPullRequestsOptions \<Rightarrow> request" where
  "listPullRequests_request client owner repo options =
     \<lparr>url = ''/'' @ service_name (getService client (lp_service options)) @ ''/'' @ owner @
             ''/repos/'' @ repo @ ''/pulls/'',
      query = listPullRequests_params options\<rparr>"

definition getRepository_request :: "CodecovClient \<Rightarrow> string \<Rightarrow> string \<Rightarrow> Service option \<Rightarrow> request" where
  "getRepository_request client owner repo service =
     \<lparr>url = ''/'' @ service_name (getService client service) @ ''/'' @ owner @ ''/repos/'' @ repo @ ''/'',
      query = Map.empty\<rparr>"

record RefOptions =
  ro_service :: "Service option"
  ro_sha :: "string option"
  ro_branch :: "string option"

definition ref_params :: "RefOptions \<Rightarrow> params" where
  "ref_params options =
     set_if_text ''branch'' (ro_branch options) (set_if_text ''sha'' (ro_sha options) Map.empty)"

definition getCoverageTotals_request ::
  "CodecovClient \<Rightarrow> string \<Rightarrow> string \<Rightarrow> RefOptions \<Rightarrow> request" where
  "getCoverageTotals_request client owner repo options =
     \<lparr>url = ''/'' @ service_name (getService client (ro_service options)) @ ''/'' @ owner @
             ''/repos/'' @ repo @ ''/totals/'',
      query = ref_params options\<rparr>"

text \<open>\<open>encodeURIComponent\<close> is the first argument.\<close>

definition getFileCoverage_request ::
  "(string \<Rightarrow> string) \<Rightarrow> CodecovClient \<Rightarrow> string \<Rightarrow> string \<Rightarrow> string \<Rightarrow> RefOptions \<Rightarrow> request" where
  "getFileCoverage_request encodeURIComponent client owner repo path options =
     \<lparr>url = ''/'' @ service_name (getService client (ro_service options)) @ ''/'' @ owner @
             ''/repos/'' @ repo @ ''/file_report/'' @ encodeURIComponent path @ ''/'',
      query = ref_params options\<rparr>"

record TreeOptions =
  to_service :: "Service option"
  to_sha :: "string option"
  to_branch :: "string option"
  to_path :: "string option"
  to_depth :: "int option"

definition getCoverageTree_request ::
  "CodecovClient \<Rightarrow> string \<Rightarrow> string \<Rightarrow> TreeOptions \<Rightarrow> request" where
  "getCoverageTree_request client owner repo options =
     \<lparr>url = ''/'' @ service_name (getService client (to_service options)) @ ''/'' @ owner @
             ''/repos/'' @ repo @ ''/report/tree'',
      query = set_if_number ''depth'' (to_depth options)
               (set_if_text ''path'' (to_path options)
                 (set_if_text ''branch'' (to_branch options)
                   (set_if_text ''sha'' (to_sha options) Map.empty)))\<rparr>"

record CompareOptions =
  co_service :: "Service option"
  co_base :: "string option"
  co_head :: "string option"
  co_pullid :: "int option"

definition compareCoverage_request ::
  "CodecovClient \<Rightarrow> string \<Rightarrow> string \<Rightarrow> CompareOptions \<Rightarrow> request" where
  "compareCoverage_request client owner repo options =
     \<lparr>url = ''/'' @ service_name (getService client (co_service options)) @ ''/'' @ owner @
             ''/repos/'' @ repo @ ''/compare/'',
      query = set_if_number ''pullid'' (co_pullid options)
               (set_if_text ''head'' (co_head options)
                 (set_if_text ''base'' (co_base options) Map.empty))\<rparr>"

text \<open>
  One client method: the request is issued (and recorded), the decoded body is
  returned, and whatever the transport throws goes through \<open>handleError\<close>.
\<close>

definition client_get ::
  "(request \<Rightarrow> transport_failure + 'r) \<Rightarrow> request \<Rightarrow> request list \<Rightarrow> (thrown + 'r) \<times> request list" where
  "client_get backend req issued =
     (case backend req of
        Inl failure \<Rightarrow> (Inl (handleError failure), issued @ [req])
      | Inr body \<Rightarrow> (Inr body, issued @ [req]))"

section \<open>Summarizers (tools/coverage.ts, tools/repository.ts, tools/comparison.ts)\<close>

subsection \<open>codecov_get_coverage_totals\<close>

record TotalsResponse =
  totals :: CoverageTotals
  commit_sha :: string

record totals_summary =
  ts_coverage_percentage :: string
  ts_lines_total :: int
  ts_lines_covered :: int
  ts_lines_missed :: int
  ts_lines_partial :: int
  ts_files_count :: int
  ts_branches :: int
  ts_methods :: int
  ts_complexity_total :: int
  ts_complexity_ratio :: "string option"
  ts_commit_sha :: string

definition coverage_totals_summary :: "TotalsResponse \<Rightarrow> totals_summary" where
  "coverage_totals_summary result =
     (let t = totals result in
      \<lparr>ts_coverage_percentage = js_concat_undef (map_option (toFixed 2) (coverage t)) ''%'',
       ts_lines_total = lines t,
       ts_lines_covered = hits t,
       ts_lines_missed = misses t,
       ts_lines_partial = partials t,
       ts_files_count = files t,
       ts_branches = branches t,
       ts_methods = methods t,
       ts_complexity_total = complexity_total t,
       ts_complexity_ratio = map_option (toFixed 2) (complexity_ratio t),
       ts_commit_sha = commit_sha result\<rparr>)"

subsection \<open>codecov_get_file_coverage\<close>

record line_classes =
  missedLines :: "int list"
  coveredLines :: "int list"
  partialLines :: "int list"

text \<open>The body of the loop over \<open>lineCoverage\<close>.\<close>

definition classify_line :: "line_classes \<Rightarrow> LineCoverage \<Rightarrow> line_classes" where
  "classify_line acc line =
     (if line_hits line = Some 0 then
        acc\<lparr>missedLines := missedLines acc @ [line_number line]\<rparr>
      else if (case line_hits line of None \<Rightarrow> False | Some c \<Rightarrow> c > 0) then
        (if is_partial_hit line = Some True then
           acc\<lparr>partialLines := partialLines acc @ [line_number line]\<rparr>
         else acc\<lparr>coveredLines := coveredLines acc @ [line_number line]\<rparr>)
      else acc)"

definition analyzeLines :: "LineCoverage list \<Rightarrow> line_classes" where
  "analyzeLines lineCoverage =
     foldl classify_line \<lparr>missedLines = [], coveredLines = [], partialLines = []\<rparr> lineCoverage"

definition render_range :: "int \<Rightarrow> int \<Rightarrow> string" where
  "render_range start end = (if start = end then show_int start else show_int start @ ''-'' @ show_int end)"

text \<open>
  The loop of \<open>groupLines\<close> from index \<open>i\<close> on: the last argument is \<open>lines\<close> from
  \<open>i\<close>, empty when \<open>i = lines.length\<close>.
\<close>

fun groupLoop :: "int \<Rightarrow> int \<Rightarrow> string list \<Rightarrow> int list \<Rightarrow> string list" where
  "groupLoop start end ranges [] = ranges @ [render_range start end]"
| "groupLoop start end ranges (x # rest) =
     (if x = end + 1 then groupLoop start x ranges rest
      else groupLoop x x (ranges @ [render_range start end]) rest)"

definition groupLines :: "int list \<Rightarrow> string" where
  "groupLines ls = (case ls of [] \<Rightarrow> ''none'' | x # rest \<Rightarrow> js_join '', '' (groupLoop x x [] rest))"

record file_summary =
  fs_file :: string
  fs_commit_sha :: string
  fs_coverage_percentage :: string
  fs_lines :: "int option"
  fs_hits :: "int option"
  fs_misses :: "int option"
  fs_partials :: "int option"
  fs_uncovered_lines :: string
  fs_partial_lines :: string
  fs_uncovered_line_count :: nat
  fs_commit_file_url :: string

definition file_coverage_summary :: "FileCoverageReport \<Rightarrow> file_summary" where
  "file_coverage_summary result =
     (let lineCoverage = (case line_coverage result of None \<Rightarrow> [] | Some ls \<Rightarrow> ls);
          classes = analyzeLines lineCoverage
      in \<lparr>fs_file = file_name result,
          fs_commit_sha = file_commit_sha result,
          fs_coverage_percentage =
            js_concat_undef (map_option (toFixed 2) (Option.bind (file_totals result) coverage)) ''%'',
          fs_lines = map_option lines (file_totals result),
          fs_hits = map_option hits (file_totals result),
          fs_misses = map_option misses (file_totals result),
          fs_partials = map_option partials (file_totals result),
          fs_uncovered_lines = groupLines (missedLines classes),
          fs_partial_lines = groupLines (partialLines classes),
          fs_uncovered_line_count = length (missedLines classes),
          fs_commit_file_url = commit_file_url result\<rparr>)"

subsection \<open>codecov_get_coverage_tree\<close>

text \<open>The two icons, U+1F4C1 and U+1F4C4, in UTF-8.\<close>

definition icon_dir :: string where
  "icon_dir = [CHR 0xF0, CHR 0x9F, CHR 0x93, CHR 0x81]"

definition icon_file :: string where
  "icon_file = [CHR 0xF0, CHR 0x9F, CHR 0x93, CHR 0x84]"

text \<open>
  \<open>formatNode\<close>; \<open>formatChildren\<close> is its loop over \<open>node.children\<close>, with the text
  built so far as first argument.
\<close>

fun formatNode :: "CoverageTreeNode \<Rightarrow> nat \<Rightarrow> string"
  and formatChildren :: "string \<Rightarrow> CoverageTreeNode list \<Rightarrow> nat \<Rightarrow> string" where
  "formatNode (CoverageTreeNode name fp cov lns hts mss chs) depth =
     (let indent = js_repeat ''  '' depth;
          coverage = (case cov of None \<Rightarrow> ''N/A'' | Some c \<Rightarrow> toFixed 1 c);
          line = indent @ (if (case chs of None \<Rightarrow> False | Some cs \<Rightarrow> length cs > 0)
                           then icon_dir else icon_file) @
                 '' '' @ name @ '' - '' @ coverage @ ''% ('' @ show_int hts @ ''/'' @
                 show_int lns @ '' lines)''
      in (case chs of
            None \<Rightarrow> line
          | Some cs \<Rightarrow> if length cs > 0 then formatChildren line cs (depth + 1) else line))"
| "formatChildren line [] depth = line"
| "formatChildren line (child # rest) depth =
     formatChildren (line @ [newline] @ formatNode child depth) rest depth"

definition coverage_tree_text :: "CoverageTreeNode list \<Rightarrow> string" where
  "coverage_tree_text result =
     foldl (\<lambda>formatted node. formatted @ formatNode node 0 @ [newline])
       (''Coverage Tree:'' @ [newline, newline]) result"

subsection \<open>codecov_list_commits\<close>

record commit_summary =
  cs_sha :: string
  cs_short_sha :: string
  cs_message :: "string option"
  cs_branch :: "string option"
  cs_author :: string
  cs_timestamp :: string
  cs_ci_passed :: "bool option"
  cs_state :: CommitState
  cs_coverage :: string

text \<open>\<open>xs[0]\<close> is \<open>undefined\<close> on an empty array.\<close>

definition first_element :: "'a list \<Rightarrow> 'a option" where
  "first_element xs = (case xs of [] \<Rightarrow> None | x # _ \<Rightarrow> Some x)"

definition summarize_commit :: "Commit \<Rightarrow> commit_summary" where
  "summarize_commit commit =
     \<lparr>cs_sha = commitid commit,
      cs_short_sha = take 7 (commitid commit),
      cs_message = Option.bind (message commit) (\<lambda>m. first_element (js_split newline m)),
      cs_branch = branch commit,
      cs_author =
        (case Option.bind (author commit) username of
           Some u \<Rightarrow> u
         | None \<Rightarrow> (case Option.bind (author commit) author_name of Some n \<Rightarrow> n | None \<Rightarrow> ''Unknown'')),
      cs_timestamp = timestamp commit,
      cs_ci_passed = ci_passed commit,
      cs_state = state commit,
      cs_coverage =
        (case Option.bind (commit_totals commit) coverage of
           Some c \<Rightarrow> toFixed 2 c @ ''%''
         | None \<Rightarrow> ''N/A'')\<rparr>"

record commits_summary =
  total_count :: int
  has_next :: bool
  has_previous :: bool
  page_total_pages :: int
  commits :: "commit_summary list"

definition truthy_text :: "string option \<Rightarrow> bool" where
  "truthy_text v = (case v of None \<Rightarrow> False | Some s \<Rightarrow> s \<noteq> [])"

definition list_commits_summary :: "Commit PaginatedResponse \<Rightarrow> commits_summary" where
  "list_commits_summary result =
     \<lparr>total_count = count result,
      has_next = truthy_text (next_cursor result),
      has_previous = truthy_text (previous_cursor result),
      page_total_pages = total_pages result,
      commits = map summarize_commit (results result)\<rparr>"

subsection \<open>codecov_list_repositories, codecov_get_repository, codecov_list_pulls\<close>

record repository_item =
  ri_name :: string
  ri_active :: bool
  ri_language :: "string option"
  ri_default_branch :: string
  ri_coverage :: string
  ri_last_updated :: "string option"

definition summarize_repository :: "Repository \<Rightarrow> repository_item" where
  "summarize_repository repo =
     \<lparr>ri_name = repo_name repo,
      ri_active = repo_active repo,
      ri_language = repo_language repo,
      ri_default_branch = repo_branch repo,
      ri_coverage =
        (case Option.bind (repo_totals repo) coverage of
           Some c \<Rightarrow> toFixed 2 c @ ''%''
         | None \<Rightarrow> ''N/A''),
      ri_last_updated = repo_updatestamp repo\<rparr>"

record repositories_summary =
  rs_total_count :: int
  rs_has_next :: bool
  rs_has_previous :: bool
  rs_total_pages :: int
  repositories :: "repository_item list"

definition list_repositories_summary :: "Repository PaginatedResponse \<Rightarrow> repositories_summary" where
  "list_repositories_summary result =
     \<lparr>rs_total_count = count result,
      rs_has_next = truthy_text (next_cursor result),
      rs_has_previous = truthy_text (previous_cursor result),
      rs_total_pages = total_pages result,
      repositories = map summarize_repository (results result)\<rparr>"

record repository_coverage =
  rc_percentage :: string
  rc_lines :: int
  rc_hits :: int
  rc_misses :: int
  rc_files :: int

text \<open>In \<open>rd_coverage\<close>, \<open>None\<close> is the text \<open>No coverage data available\<close>.\<close>

record repository_summary =
  rd_name :: string
  rd_active :: bool
  rd_activated :: bool
  rd_private :: bool
  rd_language :: "string option"
  rd_default_branch :: string
  rd_owner_username :: string
  rd_owner_service :: Service
  rd_coverage :: "repository_coverage option"
  rd_last_updated :: "string option"

definition get_repository_summary :: "Repository \<Rightarrow> repository_summary" where
  "get_repository_summary result =
     \<lparr>rd_name = repo_name result,
      rd_active = repo_active result,
      rd_activated = repo_activated result,
      rd_private = repo_private result,
      rd_language = repo_language result,
      rd_default_branch = repo_branch result,
      rd_owner_username = owner_username (repo_author result),
      rd_owner_service = owner_service (repo_author result),
      rd_coverage =
        map_option
          (\<lambda>t. \<lparr>rc_percentage = js_concat_undef (map_option (toFixed 2) (coverage t)) ''%'',
                rc_lines = lines t, rc_hits = hits t, rc_misses = misses t, rc_files = files t\<rparr>)
          (repo_totals result),
      rd_last_updated = repo_updatestamp result\<rparr>"

record pull_reference =
  pr_branch :: "string option"
  pr_commit :: "string option"

record pull_item =
  pi_id :: int
  pi_title :: "string option"
  pi_state :: PullState
  pi_author :: string
  pi_base :: "pull_reference option"
  pi_head :: "pull_reference option"
  pi_last_updated :: "string option"

definition summarize_pull :: "PullRequest \<Rightarrow> pull_item" where
  "summarize_pull pr =
     \<lparr>pi_id = pullid pr,
      pi_title = title pr,
      pi_state = pull_state pr,
      pi_author =
        (case Option.bind (pull_author pr) username of
           Some u \<Rightarrow> u
         | None \<Rightarrow> (case Option.bind (pull_author pr) author_name of Some n \<Rightarrow> n | None \<Rightarrow> ''Unknown'')),
      pi_base =
        map_option (\<lambda>r. \<lparr>pr_branch = ref_branch r, pr_commit = map_option (take 7) (ref_commitid r)\<rparr>)
          (pull_base pr),
      pi_head =
        map_option (\<lambda>r. \<lparr>pr_branch = ref_branch r, pr_commit = map_option (take 7) (ref_commitid r)\<rparr>)
          (pull_head pr),
      pi_last_updated = pull_updatestamp pr\<rparr>"

record pulls_summary =
  pl_total_count :: int
  pl_has_next :: bool
  pl_has_previous :: bool
  pl_total_pages :: int
  pull_requests :: "pull_item list"

definition list_pulls_summary :: "PullRequest PaginatedResponse \<Rightarrow> pulls_summary" where
  "list_pulls_summary result =
     \<lparr>pl_total_count = count result,
      pl_has_next = truthy_text (next_cursor result),
      pl_has_previous = truthy_text (previous_cursor result),
      pl_total_pages = total_pages result,
      pull_requests = map summarize_pull (results result)\<rparr>"

subsection \<open>codecov_compare_coverage\<close>

record patch_summary =
  ps_coverage :: string
  ps_hits :: int
  ps_misses :: int

record changed_file =
  name :: string
  base_coverage :: string
  head_coverage :: string
  change :: string
  patch :: "patch_summary option"
  lines_added :: int
  lines_removed :: int

text \<open>\<open>change !== null ? (change >= 0 ? "+" : "") + change.toFixed(2) + "%" : "N/A"\<close>.\<close>

definition render_change :: "rat option \<Rightarrow> string" where
  "render_change chg =
     (case chg of None \<Rightarrow> ''N/A'' | Some c \<Rightarrow> (if c \<ge> 0 then ''+'' else []) @ toFixed 2 c @ ''%'')"

definition render_percentage :: "rat option \<Rightarrow> string" where
  "render_percentage v = (case v of None \<Rightarrow> ''N/A'' | Some c \<Rightarrow> toFixed 2 c @ ''%'')"

text \<open>The per-file delta of the \<open>map\<close> callback.\<close>

definition file_change :: "ComparisonFile \<Rightarrow> rat option" where
  "file_change file =
     (let baseCov = Option.bind (ft_base (cf_totals file)) coverage;
          headCov = Option.bind (ft_head (cf_totals file)) coverage
      in (case baseCov of
            None \<Rightarrow> None
          | Some b \<Rightarrow> (case headCov of None \<Rightarrow> None | Some h \<Rightarrow> Some (h - b))))"

definition summarize_file :: "ComparisonFile \<Rightarrow> changed_file" where
  "summarize_file file =
     \<lparr>name = cf_name file,
      base_coverage = render_percentage (Option.bind (ft_base (cf_totals file)) coverage),
      head_coverage = render_percentage (Option.bind (ft_head (cf_totals file)) coverage),
      change = render_change (file_change file),
      patch =
        map_option
          (\<lambda>p. \<lparr>ps_coverage = js_concat_undef (map_option (toFixed 2) (patch_coverage p)) ''%'',
                ps_hits = patch_hits p, ps_misses = patch_misses p\<rparr>)
          (ft_patch (cf_totals file)),
      lines_added = (case stats file of None \<Rightarrow> 0 | Some st \<Rightarrow> added st),
      lines_removed = (case stats file of None \<Rightarrow> 0 | Some st \<Rightarrow> removed st)\<rparr>"

text \<open>\<open>parseFloat(a.change) || 0\<close>: \<open>NaN\<close> and zero both give zero.\<close>

definition sort_value :: "changed_file \<Rightarrow> rat" where
  "sort_value a = (case parseFloat (change a) of None \<Rightarrow> 0 | Some v \<Rightarrow> v)"

text \<open>
  \<open>filter\<close>, \<open>map\<close> and the in-place \<open>sort\<close> with comparator
  \<open>aChange - bChange\<close>: \<open>Array.prototype.sort\<close> is stable, so it is the stable
  sort by that key.
\<close>

definition changedFiles :: "ComparisonFile list \<Rightarrow> changed_file list" where
  "changedFiles fs =
     sort_key sort_value
       (map summarize_file (filter (\<lambda>f. has_diff f \<or> change_summary f \<noteq> None) fs))"

record overall_patch =
  op_percentage :: string
  op_hits :: int
  op_misses :: int
  op_partials :: int

record comparison_summary =
  sm_base_commit :: string
  sm_head_commit :: string
  totals_base :: string
  totals_head :: string
  totals_change :: string
  patch_coverage_summary :: "overall_patch option"
  files_changed :: nat
  untracked_files :: nat
  sm_has_unmerged_base_commits :: bool
  changed_files :: "changed_file list"

text \<open>
  The engine's message for a method call on \<open>undefined\<close>; its wording is the
  engine's, only its being an \<open>Error\<close> matters to the handler.
\<close>

definition TypeError_toFixed :: thrown where
  "TypeError_toFixed = PlainError ''Cannot read properties of undefined (reading toFixed)''"

text \<open>
  The summary object. \<open>headCoverage.toFixed(2)\<close> is the one unguarded call: with the
  head percentage missing it throws, and no summary is built.
\<close>

definition compare_summary :: "CoverageComparison \<Rightarrow> thrown + comparison_summary" where
  "compare_summary result =
     (let baseCoverage = Option.bind (ct_base (cmp_totals result)) coverage;
          headCoverage = coverage (ct_head (cmp_totals result));
          changed = changedFiles (cmp_files result)
      in (case headCoverage of
            None \<Rightarrow> Inl TypeError_toFixed
          | Some h \<Rightarrow>
              (let coverageChange = (case baseCoverage of None \<Rightarrow> None | Some b \<Rightarrow> Some (h - b))
               in Inr
                 \<lparr>sm_base_commit = (case base_commit result of None \<Rightarrow> ''N/A'' | Some c \<Rightarrow> take 7 c),
                  sm_head_commit = take 7 (head_commit result),
                  totals_base = render_percentage baseCoverage,
                  totals_head = toFixed 2 h @ ''%'',
                  totals_change = render_change coverageChange,
                  patch_coverage_summary =
                    map_option
                      (\<lambda>p. \<lparr>op_percentage =
                               js_concat_undef (map_option (toFixed 2) (patch_coverage p)) ''%'',
                             op_hits = patch_hits p, op_misses = patch_misses p,
                             op_partials = patch_partials p\<rparr>)
                      (ct_patch (cmp_totals result)),
                  files_changed = length changed,
                  untracked_files = length (untracked result),
                  sm_has_unmerged_base_commits = has_unmerged_base_commits result,
                  changed_files = take 20 changed\<rparr>)))"

text \<open>The warning sign U+26A0 U+FE0F in UTF-8, and the heading of the block.\<close>

definition warning_heading :: string where
  "warning_heading =
     [CHR 0xE2, CHR 0x9A, CHR 0xA0, CHR 0xEF, CHR 0xB8, CHR 0x8F] @
     '' Untracked files (new files without coverage):'' @ [newline]"

text \<open>What is appended to the JSON text of the summary.\<close>

definition untracked_warning :: "string list \<Rightarrow> string" where
  "untracked_warning paths =
     (if length paths > 0 then
        [newline, newline] @ warning_heading @ js_join [newline] (take 10 paths) @
        (if length paths > 10 then
           [newline] @ ''... and '' @ show_int (int (length paths) - 10) @ '' more''
         else [])
      else [])"

text \<open>The text of the result; \<open>JSON.stringify(summary, null, 2)\<close> is the first argument.\<close>

definition compare_text ::
  "(comparison_summary \<Rightarrow> string) \<Rightarrow> CoverageComparison \<Rightarrow> thrown + string" where
  "compare_text stringify result =
     (case compare_summary result of
        Inl e \<Rightarrow> Inl e
      | Inr summary \<Rightarrow> Inr (stringify summary @ untracked_warning (untracked result)))"

section \<open>Operation registry: the handlers and their failure envelope\<close>

record tool_result =
  content :: "string list"
  isError :: bool

record server_state =
  clientInstance :: "CodecovClient option"
  issued :: "request list"

text \<open>\<open>error instanceof Error ? error.message : "Unknown error"\<close>.\<close>

definition thrown_message :: "thrown \<Rightarrow> string" where
  "thrown_message e =
     (case e of CodecovApiError m _ _ \<Rightarrow> m | PlainError m \<Rightarrow> m | NonErrorValue \<Rightarrow> ''Unknown error'')"

definition error_result :: "thrown \<Rightarrow> tool_result" where
  "error_result e = \<lparr>content = [''Error: '' @ thrown_message e], isError = True\<rparr>"

text \<open>
  The body every handler shares: get the client, call it, summarize, and turn
  whatever was thrown on the way into the error result. The arguments are the
  environment's token, the backend, the request the client method builds and the
  summarizer with its serialisation.
\<close>

definition tool_handler ::
  "string option \<Rightarrow> (request \<Rightarrow> transport_failure + 'r) \<Rightarrow> (CodecovClient \<Rightarrow> request) \<Rightarrow>
   ('r \<Rightarrow> thrown + string) \<Rightarrow> server_state \<Rightarrow> tool_result \<times> server_state" where
  "tool_handler env_token backend build summarize st =
     (case getCodecovClient env_token (clientInstance st) of
        Inl e \<Rightarrow> (error_result e, st)
      | Inr (client, inst) \<Rightarrow>
          (case client_get backend (build client) (issued st) of
             (Inl e, sent) \<Rightarrow> (error_result e, \<lparr>clientInstance = inst, issued = sent\<rparr>)
           | (Inr body, sent) \<Rightarrow>
               (case summarize body of
                  Inl e \<Rightarrow> (error_result e, \<lparr>clientInstance = inst, issued = sent\<rparr>)
                | Inr txt \<Rightarrow>
                    (\<lparr>content = [txt], isError = False\<rparr>,
                     \<lparr>clientInstance = inst, issued = sent\<rparr>))))"

definition codecov_get_coverage_totals ::
  "string option \<Rightarrow> (request \<Rightarrow> transport_failure + TotalsResponse) \<Rightarrow> (totals_summary \<Rightarrow> string) \<Rightarrow>
   string \<Rightarrow> string \<Rightarrow> RefOptions \<Rightarrow> server_state \<Rightarrow> tool_result \<times> server_state" where
  "codecov_get_coverage_totals env_token backend stringify owner repo options =
     tool_handler env_token backend (\<lambda>c. getCoverageTotals_request c owner repo options)
       (\<lambda>r. Inr (stringify (coverage_totals_summary r)))"

definition codecov_get_file_coverage ::
  "string option \<Rightarrow> (request \<Rightarrow> transport_failure + FileCoverageReport) \<Rightarrow> (file_summary \<Rightarrow> string) \<Rightarrow>
   (string \<Rightarrow> string) \<Rightarrow> string \<Rightarrow> string \<Rightarrow> string \<Rightarrow> RefOptions \<Rightarrow> server_state \<Rightarrow>
   tool_result \<times> server_state" where
  "codecov_get_file_coverage env_token backend stringify encodeURIComponent owner repo path options =
     tool_handler env_token backend
       (\<lambda>c. getFileCoverage_request encodeURIComponent c owner repo path options)
       (\<lambda>r. Inr (stringify (file_coverage_summary r)))"

definition codecov_get_coverage_tree ::
  "string option \<Rightarrow> (request \<Rightarrow> transport_failure + CoverageTreeNode list) \<Rightarrow>
   string \<Rightarrow> string \<Rightarrow> TreeOptions \<Rightarrow> server_state \<Rightarrow> tool_result \<times> server_state" where
  "codecov_get_coverage_tree env_token backend owner repo options =
     tool_handler env_token backend (\<lambda>c. getCoverageTree_request c owner repo options)
       (\<lambda>r. Inr (coverage_tree_text r))"

definition codecov_compare_coverage ::
  "string option \<Rightarrow> (request \<Rightarrow> transport_failure + CoverageComparison) \<Rightarrow>
   (comparison_summary \<Rightarrow> string) \<Rightarrow> string \<Rightarrow> string \<Rightarrow> CompareOptions \<Rightarrow> server_state \<Rightarrow>
   tool_result \<times> server_state" where
  "codecov_compare_coverage env_token backend stringify owner repo options =
     tool_handler env_token backend (\<lambda>c. compareCoverage_request c owner repo options)
       (compare_text stringify)"

definition codecov_list_commits ::
  "string option \<Rightarrow> (request \<Rightarrow> transport_failure + Commit PaginatedResponse) \<Rightarrow>
   (commits_summary \<Rightarrow> string) \<Rightarrow> string \<Rightarrow> string \<Rightarrow> ListCommitsOptions \<Rightarrow> server_state \<Rightarrow>
   tool_result \<times> server_state" where
  "codecov_list_commits env_token backend stringify owner repo options =
     tool_handler env_token backend (\<lambda>c. listCommits_request c owner repo options)
       (\<lambda>r. Inr (stringify (list_commits_summary r)))"

definition codecov_list_repositories ::
  "string option \<Rightarrow> (request \<Rightarrow> transport_failure + Repository PaginatedResponse) \<Rightarrow>
   (repositories_summary \<Rightarrow> string) \<Rightarrow> string \<Rightarrow> ListRepositoriesOptions \<Rightarrow> server_state \<Rightarrow>
   tool_result \<times> server_state" where
  "codecov_list_repositories env_token backend stringify owner options =
     tool_handler env_token backend (\<lambda>c. listRepositories_request c owner options)
       (\<lambda>r. Inr (stringify (list_repositories_summary r)))"

definition codecov_get_repository ::
  "string option \<Rightarrow> (request \<Rightarrow> transport_failure + Repository) \<Rightarrow>
   (repository_summary \<Rightarrow> string) \<Rightarrow> string \<Rightarrow> string \<Rightarrow> Service option \<Rightarrow> server_state \<Rightarrow>
   tool_result \<times> server_state" where
  "codecov_get_repository env_token backend stringify owner repo service =
     tool_handler env_token backend (\<lambda>c. getRepository_request c owner repo service)
       (\<lambda>r. Inr (stringify (get_repository_summary r)))"

definition codecov_list_pulls ::
  "string option \<Rightarrow> (request \<Rightarrow> transport_failure + PullRequest PaginatedResponse) \<Rightarrow>
   (pulls_summary \<Rightarrow> string) \<Rightarrow> string \<Rightarrow> string \<Rightarrow> ListPullRequestsOptions \<Rightarrow> server_state \<Rightarrow>
   tool_result \<times> server_state" where
  "codecov_list_pulls env_token backend stringify owner repo options =
     tool_handler env_token backend (\<lambda>c. listPullRequests_request c owner repo options)
       (\<lambda>r. Inr (stringify (list_pulls_summary r)))"

section \<open>Notions the properties are stated with\<close>

subsection \<open>Line classes and ranges\<close>











subsection \<open>Decimal texts\<close>

text \<open>The last \<open>f\<close> decimal digits of a number, zeros included.\<close>

fun fixed_digits :: "nat \<Rightarrow> nat \<Rightarrow> string" where
  "fixed_digits 0 m = []"
| "fixed_digits (Suc f) m = fixed_digits f (m div 10) @ [digit_char (m mod 10)]"

text \<open>The magnitude of a number in units of \<open>10^-f\<close>, rounded to the nearest, halves up.\<close>

definition scaled :: "nat \<Rightarrow> rat \<Rightarrow> nat" where
  "scaled f x = nat \<lfloor>\<bar>x\<bar> * 10 ^ f + 1 / 2\<rfloor>"


subsection \<open>Trees\<close>

text \<open>The nodes of a tree in pre-order, each with its nesting level.\<close>

fun preorder :: "CoverageTreeNode \<Rightarrow> nat \<Rightarrow> (CoverageTreeNode \<times> nat) list"
  and preorder_list :: "CoverageTreeNode list \<Rightarrow> nat \<Rightarrow> (CoverageTreeNode \<times> nat) list" where
  "preorder (CoverageTreeNode nm fp cov lns hts mss chs) d =
     (CoverageTreeNode nm fp cov lns hts mss chs, d) #
     (case chs of None \<Rightarrow> [] | Some cs \<Rightarrow> preorder_list cs (d + 1))"
| "preorder_list [] d = []"
| "preorder_list (c # cs) d = preorder c d @ preorder_list cs d"

definition is_directory :: "CoverageTreeNode \<Rightarrow> bool" where
  "is_directory n = (case children n of None \<Rightarrow> False | Some cs \<Rightarrow> cs \<noteq> [])"

text \<open>The line of one node at a nesting level.\<close>

definition node_line :: "CoverageTreeNode \<times> nat \<Rightarrow> string" where
  "node_line nd =
     (case nd of (n, d) \<Rightarrow>
        replicate (2 * d) (CHR '' '') @ (if is_directory n then icon_dir else icon_file) @
        '' '' @ node_name n @ '' - '' @
        (case node_coverage n of None \<Rightarrow> ''N/A'' | Some c \<Rightarrow> toFixed 1 c) @
        ''% ('' @ show_int (node_hits n) @ ''/'' @ show_int (node_lines n) @ '' lines)'')"

subsection \<open>File ranking\<close>




subsection \<open>Results of a failed operation\<close>

text \<open>The result of an operation that finds no token in the environment.\<close>

definition missing_token_result :: tool_result where
  "missing_token_result =
     \<lparr>content = [''Error: CODECOV_API_TOKEN environment variable is required. Get your token from Codecov settings: Settings > Access > Generate Token''],
      isError = True\<rparr>"

subsection \<open>Example data\<close>

definition totals_of :: "rat option \<Rightarrow> CoverageTotals" where
  "totals_of c =
     \<lparr>files = 1, lines = 100, hits = 80, misses = 15, partials = 5, coverage = c,
      branches = 0, methods = 0, complexity_total = 0, complexity_ratio = None\<rparr>"

text \<open>A file of a comparison by name, base and head percentage, and its \<open>has_diff\<close> flag.\<close>

definition file_with :: "string \<Rightarrow> rat option \<Rightarrow> rat option \<Rightarrow> bool \<Rightarrow> ComparisonFile" where
  "file_with nm b h d =
     \<lparr>cf_name = nm,
      cf_totals = \<lparr>ft_base = map_option (\<lambda>c. totals_of (Some c)) b,
                   ft_head = map_option (\<lambda>c. totals_of (Some c)) h, ft_patch = None\<rparr>,
      has_diff = d, stats = None, change_summary = None\<rparr>"

text \<open>
  A comparison by the base percentage (none: no base totals), the \<open>coverage\<close> field
  of the head totals, the files and the untracked paths.
\<close>

definition comparison_of ::
  "rat option \<Rightarrow> rat option \<Rightarrow> ComparisonFile list \<Rightarrow> string list \<Rightarrow> CoverageComparison" where
  "comparison_of b h fs us =
     \<lparr>base_commit = Some ''0123456789abcdef'', head_commit = ''fedcba9876543210'',
      cmp_totals = \<lparr>ct_base = map_option (\<lambda>c. totals_of (Some c)) b, ct_head = totals_of h,
                    ct_patch = None\<rparr>,
      cmp_files = fs, untracked = us, has_unmerged_base_commits = False\<rparr>"

definition fifteen_paths :: "string list" where
  "fifteen_paths = map (\<lambda>n. ''src/f'' @ show_nat n) [1..<16]"

definition example_tree :: CoverageTreeNode where
  "example_tree =
     CoverageTreeNode ''src'' ''src'' (Some 90) 10 9 1
       (Some [CoverageTreeNode ''a.ts'' ''src/a.ts'' (Some (1703 / 20)) 8 7 1 None,
              CoverageTreeNode ''b.ts'' ''src/b.ts'' None 2 2 0 (Some [])])"

section \<open>Properties\<close>

subsection \<open>Decimal texts\<close>

lemma show_nat_digit: "n < 10 \<Longrightarrow> show_nat n = [digit_char n]"
  by (simp add: show_nat.simps)

lemma show_nat_ge10: "10 \<le> n \<Longrightarrow> show_nat n = show_nat (n div 10) @ [digit_char (n mod 10)]"
  by (subst show_nat.simps) simp

lemma length_fixed_digits: "length (fixed_digits f m) = f"
  by (induction f arbitrary: m) simp_all

lemma digit_char_0: "digit_char 0 = CHR ''0''"
  by code_simp

lemma fixed_digits_zero: "fixed_digits f 0 = replicate f (CHR ''0'')"
  by (induction f) (simp_all add: digit_char_0 replicate_append_same)

lemma show_nat_split:
  "10 ^ f \<le> n \<Longrightarrow> show_nat n = show_nat (n div 10 ^ f) @ fixed_digits f (n mod 10 ^ f)"
proof (induction f arbitrary: n)
  case 0
  then show ?case by simp
next
  case (Suc f)
  from Suc.prems have n10: "10 \<le> n"
    by (metis One_nat_def le_trans one_le_numeral one_le_power power_Suc mult.right_neutral mult_le_mono2)
  from Suc.prems have "10 ^ f \<le> n div 10"
    by (simp add: less_eq_div_iff_mult_less_eq mult.commute)
  then have ih: "show_nat (n div 10) = show_nat (n div 10 div 10 ^ f) @ fixed_digits f (n div 10 mod 10 ^ f)"
    by (rule Suc.IH)
  have d: "n div 10 div 10 ^ f = n div 10 ^ Suc f"
    by (simp add: div_mult2_eq)
  have m1: "n mod 10 ^ Suc f div 10 = n div 10 mod 10 ^ f"
    by (simp add: mod_mult2_eq)
  have m2: "n mod 10 ^ Suc f mod 10 = n mod 10"
    by (simp add: mod_mod_cancel)
  show ?case
    unfolding show_nat_ge10 [OF n10] ih d fixed_digits.simps m1 m2 by simp
qed

lemma show_nat_pad:
  "n < 10 ^ Suc f \<Longrightarrow>
   length (show_nat n) \<le> Suc f \<and>
   replicate (Suc f - length (show_nat n)) (CHR ''0'') @ show_nat n = fixed_digits (Suc f) n"
proof (induction f arbitrary: n)
  case 0
  then show ?case by (simp add: show_nat_digit)
next
  case (Suc f)
  show ?case
  proof (cases "n < 10")
    case True
    then show ?thesis
      by (simp add: show_nat_digit fixed_digits_zero digit_char_0 replicate_append_same)
  next
    case False
    then have n10: "10 \<le> n" by simp
    from Suc.prems have "n div 10 < 10 ^ Suc f"
      by (simp add: less_mult_imp_div_less mult.commute)
    from Suc.IH [OF this] show ?thesis
      by (simp add: show_nat_ge10 [OF n10] Suc_diff_le)
  qed
qed

lemma show_nat_nonempty: "show_nat n \<noteq> []"
  by (subst show_nat.simps) simp

lemma toFixed_shape:
  "toFixed (Suc f) x =
     (if x < 0 then ''-'' else []) @ show_nat (scaled (Suc f) x div 10 ^ Suc f) @ ''.'' @
     fixed_digits (Suc f) (scaled (Suc f) x mod 10 ^ Suc f)"
proof -
  define n where "n = scaled (Suc f) x"
  define m where "m = show_nat n"
  define m' where
    "m' = (if length m \<le> Suc f then replicate (Suc f + 1 - length m) (CHR ''0'') @ m else m)"
  have tf: "toFixed (Suc f) x =
      (if x < 0 then ''-'' else []) @ take (length m' - Suc f) m' @ ''.'' @ drop (length m' - Suc f) m'"
    by (simp add: toFixed_def Let_def m'_def m_def n_def scaled_def)
  have "take (length m' - Suc f) m' = show_nat (n div 10 ^ Suc f) \<and>
        drop (length m' - Suc f) m' = fixed_digits (Suc f) (n mod 10 ^ Suc f)"
  proof (cases "n < 10 ^ Suc f")
    case True
    from show_nat_pad [OF True] have len: "length m \<le> Suc f"
      and pad: "replicate (Suc f - length m) (CHR ''0'') @ m = fixed_digits (Suc f) n"
      by (simp_all add: m_def)
    from len have "m' = CHR ''0'' # (replicate (Suc f - length m) (CHR ''0'') @ m)"
      by (simp add: m'_def Suc_diff_le)
    with pad have m': "m' = CHR ''0'' # fixed_digits (Suc f) n" by simp
    have "show_nat (n div 10 ^ Suc f) = ''0''"
      using True by (simp add: show_nat_digit digit_char_0)
    with True show ?thesis
      by (simp add: m' length_fixed_digits)
  next
    case False
    then have ge: "10 ^ Suc f \<le> n" by simp
    have split: "m = show_nat (n div 10 ^ Suc f) @ fixed_digits (Suc f) (n mod 10 ^ Suc f)"
      unfolding m_def by (rule show_nat_split [OF ge])
    have "length (show_nat (n div 10 ^ Suc f)) \<noteq> 0"
      using show_nat_nonempty by simp
    with split have "\<not> length m \<le> Suc f"
      by (simp add: length_fixed_digits)
    then have "m' = m" by (simp add: m'_def)
    with split show ?thesis
      by (simp add: length_fixed_digits)
  qed
  with tf show ?thesis by (simp add: n_def)
qed








lemma not_digit_chars:
  "\<not> is_digit (CHR ''.'')" "\<not> is_digit (CHR ''%'')" "\<not> is_digit (CHR ''N'')"
  "\<not> is_digit (CHR ''+'')" "\<not> is_digit (CHR ''-'')"
  by (simp_all add: is_digit_def)

lemma takeWhile_digits:
  "list_all is_digit ds \<Longrightarrow> \<not> is_digit c \<Longrightarrow> takeWhile is_digit (ds @ c # rest) = ds"
  by (induction ds) simp_all

lemma dropWhile_digits:
  "list_all is_digit ds \<Longrightarrow> \<not> is_digit c \<Longrightarrow> dropWhile is_digit (ds @ c # rest) = c # rest"
  by (induction ds) simp_all

lemma parseFloat_unsigned:
  assumes "list_all is_digit ip" "ip \<noteq> []" "list_all is_digit fp" "\<not> is_digit c"
  shows "parseFloat (ip @ ''.'' @ fp @ c # rest) =
           Some (of_nat (digits_value ip) + of_nat (digits_value fp) / 10 ^ length fp)"
proof -
  from assms(1,2) obtain d ds where ip: "ip = d # ds" and d: "is_digit d"
    by (cases ip) simp_all
  from d have nd: "d \<noteq> CHR ''-''" "d \<noteq> CHR ''+''"
    using not_digit_chars by auto
  have tw: "takeWhile is_digit (ip @ CHR ''.'' # fp @ c # rest) = ip"
    by (rule takeWhile_digits [OF assms(1) not_digit_chars(1)])
  have dw: "dropWhile is_digit (ip @ CHR ''.'' # fp @ c # rest) = CHR ''.'' # fp @ c # rest"
    by (rule dropWhile_digits [OF assms(1) not_digit_chars(1)])
  have tf: "takeWhile is_digit (fp @ c # rest) = fp"
    by (rule takeWhile_digits [OF assms(3,4)])
  have "parseFloat ((d # ds) @ ''.'' @ fp @ c # rest) =
           Some (of_nat (digits_value ip) + of_nat (digits_value fp) / 10 ^ length fp)"
    using nd tw dw tf assms(2) unfolding ip parseFloat_def by simp
  then show ?thesis by (simp add: ip)
qed





subsection \<open>Line classes and range compression\<close>
























subsection \<open>Coverage deltas and file ranking\<close>







lemma compare_summary_head:
  assumes "coverage (ct_head (cmp_totals result)) = Some h"
  shows "\<exists>s. compare_summary result = Inr s \<and>
    totals_change s = render_change (map_option (\<lambda>b. h - b) (Option.bind (ct_base (cmp_totals result)) coverage)) \<and>
    files_changed s = length (changedFiles (cmp_files result)) \<and>
    changed_files s = take 20 (changedFiles (cmp_files result))"
  using assms
  by (cases "Option.bind (ct_base (cmp_totals result)) coverage")
    (simp_all add: compare_summary_def Let_def)
















subsection \<open>Untracked files\<close>

lemma warning_heading_nonempty: "warning_heading \<noteq> []"
  by (simp add: warning_heading_def)

text \<open>
  C9. The text of a comparison is the JSON text of the summary followed by the
  warning block exactly when there are untracked files; the block lists the first
  \<open>min 10 count\<close> paths in order, one per line, and ends with \<open>... and N more\<close>,
  \<open>N = count - 10\<close>, exactly when there are more than 10.
\<close>

theorem untracked_warning_block:
  "(compare_summary result = Inr s \<longrightarrow>
      compare_text stringify result = Inr (stringify s @ untracked_warning (untracked result))) \<and>
   (untracked_warning paths = [] \<longleftrightarrow> paths = []) \<and>
   (paths \<noteq> [] \<longrightarrow>
      untracked_warning paths =
        [newline, newline] @ warning_heading @ js_join [newline] (take (min 10 (length paths)) paths) @
        (if 10 < length paths
         then [newline] @ ''... and '' @ show_nat (length paths - 10) @ '' more'' else [])) \<and>
   length (take (min 10 (length paths)) paths) = min 10 (length paths)"
proof -
  have "compare_summary result = Inr s \<longrightarrow>
      compare_text stringify result = Inr (stringify s @ untracked_warning (untracked result))"
    by (simp add: compare_text_def)
  moreover have "untracked_warning paths = [] \<longleftrightarrow> paths = []"
    by (simp add: untracked_warning_def)
  moreover have "paths \<noteq> [] \<longrightarrow>
      untracked_warning paths =
        [newline, newline] @ warning_heading @ js_join [newline] (take (min 10 (length paths)) paths) @
        (if 10 < length paths
         then [newline] @ ''... and '' @ show_nat (length paths - 10) @ '' more'' else [])"
  proof
    assume "paths \<noteq> []"
    have "show_int (int (length paths) - 10) = show_nat (length paths - 10)" if "10 < length paths"
      using that by (simp add: show_int_def nat_diff_distrib')
    moreover have "take 10 paths = take (min 10 (length paths)) paths"
      by (simp add: min_def)
    ultimately show "untracked_warning paths =
        [newline, newline] @ warning_heading @ js_join [newline] (take (min 10 (length paths)) paths) @
        (if 10 < length paths
         then [newline] @ ''... and '' @ show_nat (length paths - 10) @ '' more'' else [])"
      using \<open>paths \<noteq> []\<close> by (simp add: untracked_warning_def)
  qed
  moreover have "length (take (min 10 (length paths)) paths) = min 10 (length paths)"
    by simp
  ultimately show ?thesis
    by (intro conjI) assumption+
qed

theorem untracked_warning_block_witness:
  "fifteen_paths \<noteq> [] \<and> length fifteen_paths = 15 \<and>
   untracked_warning fifteen_paths =
     [newline, newline] @ warning_heading @ js_join [newline] (take 10 fifteen_paths) @
     [newline] @ ''... and 5 more'' \<and>
   length (take 10 fifteen_paths) = 10 \<and>
   compare_text (\<lambda>s. ''{}'') (comparison_of None (Some 85) [] fifteen_paths) =
     Inr (''{}'' @ untracked_warning fifteen_paths)"
proof -
  let ?r = "comparison_of None (Some 85) [] fifteen_paths"
  have len: "length fifteen_paths = 15"
    by (simp add: fifteen_paths_def)
  then have ne: "fifteen_paths \<noteq> []"
    by auto
  have five: "show_nat 5 = ''5''"
    by code_simp
  have "coverage (ct_head (cmp_totals ?r)) = Some 85"
    by (simp add: comparison_of_def totals_of_def)
  from compare_summary_head [OF this] obtain s where s: "compare_summary ?r = Inr s"
    by blast
  note t = untracked_warning_block [of ?r s "\<lambda>s. ''{}''" fifteen_paths]
  from t ne have "untracked_warning fifteen_paths =
        [newline, newline] @ warning_heading @
        js_join [newline] (take (min 10 (length fifteen_paths)) fifteen_paths) @
        (if 10 < length fifteen_paths
         then [newline] @ ''... and '' @ show_nat (length fifteen_paths - 10) @ '' more'' else [])"
    by blast
  then have a: "untracked_warning fifteen_paths =
     [newline, newline] @ warning_heading @ js_join [newline] (take 10 fifteen_paths) @
     [newline] @ ''... and 5 more''"
    by (simp add: len five)
  from t have "length (take (min 10 (length fifteen_paths)) fifteen_paths) = min 10 (length fifteen_paths)"
    by blast
  then have b: "length (take 10 fifteen_paths) = 10"
    by (simp add: len)
  from t s have "compare_text (\<lambda>s. ''{}'') ?r = Inr (''{}'' @ untracked_warning (untracked ?r))"
    by blast
  then have c: "compare_text (\<lambda>s. ''{}'') ?r = Inr (''{}'' @ untracked_warning fifteen_paths)"
    by (simp add: comparison_of_def)
  from ne len a b c show ?thesis
    by blast
qed

subsection \<open>Absent percentages\<close>

text \<open>
  C4. With the \<open>coverage\<close> field absent the summaries of the totals, of a file and of
  the patch render the percentage as \<open>undefined%\<close>, where the summaries of the lists
  and of the compared files render \<open>N/A\<close>.
\<close>

theorem absent_coverage_rendering:
  "ts_coverage_percentage
     (coverage_totals_summary \<lparr>totals = totals_of None, commit_sha = ''0123456789abcdef''\<rparr>) =
     ''undefined%'' \<and>
   fs_coverage_percentage
     (file_coverage_summary
       \<lparr>file_name = ''src/a.ts'', file_totals = Some (totals_of None), line_coverage = Some [],
        file_commit_sha = ''0123456789abcdef'', commit_file_url = ''https://app.codecov.io/f''\<rparr>) =
     ''undefined%'' \<and>
   map_option ps_coverage
     (patch (summarize_file
       \<lparr>cf_name = ''src/a.ts'',
        cf_totals = \<lparr>ft_base = None, ft_head = None,
                     ft_patch = Some \<lparr>patch_hits = 1, patch_misses = 2, patch_partials = 0,
                                     patch_coverage = None\<rparr>\<rparr>,
        has_diff = True, stats = None, change_summary = None\<rparr>)) = Some ''undefined%'' \<and>
   base_coverage (summarize_file (file_with ''src/a.ts'' None None True)) = ''N/A''"
  by (simp add: coverage_totals_summary_def file_coverage_summary_def summarize_file_def
      totals_of_def file_with_def js_concat_undef_def render_percentage_def Let_def)

subsection \<open>The failure envelope\<close>


lemma tool_handler_no_client:
  assumes "getCodecovClient env (clientInstance st) = Inl e"
  shows "tool_handler env backend build summarize st = (error_result e, st)"
  using assms by (simp add: tool_handler_def)







lemma tool_handler_missing_token:
  assumes "env = None \<or> env = Some []"
  shows "getCodecovClient env None =
        Inl (PlainError (''CODECOV_API_TOKEN environment variable is required. '' @
          ''Get your token from Codecov settings: Settings > Access > Generate Token''))"
    and "tool_handler env backend build summarize \<lparr>clientInstance = None, issued = sent\<rparr> =
        (missing_token_result, \<lparr>clientInstance = None, issued = sent\<rparr>)"
proof -
  show g: "getCodecovClient env None =
        Inl (PlainError (''CODECOV_API_TOKEN environment variable is required. '' @
          ''Get your token from Codecov settings: Settings > Access > Generate Token''))"
    using assms by (auto simp: getCodecovClient_def)
  show "tool_handler env backend build summarize \<lparr>clientInstance = None, issued = sent\<rparr> =
        (missing_token_result, \<lparr>clientInstance = None, issued = sent\<rparr>)"
    by (simp add: tool_handler_def g error_result_def thrown_message_def missing_token_result_def)
qed

text \<open>
  C6. With no token in the environment, or an empty one, and no client built yet,
  \<open>getCodecovClient\<close> throws; a handler then returns the error result and leaves
  the list of issued requests as it was, so that no request is sent. The
  constructor throws on the empty token whatever the service, and builds the client
  from any other token.
\<close>

theorem missing_token_fails_before_any_request:
  "(env = None \<or> env = Some [] \<longrightarrow>
      getCodecovClient env None =
        Inl (PlainError (''CODECOV_API_TOKEN environment variable is required. '' @
          ''Get your token from Codecov settings: Settings > Access > Generate Token'')) \<and>
      tool_handler env backend build summarize \<lparr>clientInstance = None, issued = sent\<rparr> =
        (missing_token_result, \<lparr>clientInstance = None, issued = sent\<rparr>)) \<and>
   (env = None \<or> env = Some [] \<longrightarrow>
      codecov_get_file_coverage env b4 j4 enc owner repo path o3 \<lparr>clientInstance = None, issued = sent\<rparr> =
        (missing_token_result, \<lparr>clientInstance = None, issued = sent\<rparr>)) \<and>
   new_CodecovClient [] svc =
     Inl (PlainError ''CODECOV_API_TOKEN is required. Set it as an environment variable.'') \<and>
   (token \<noteq> [] \<longrightarrow>
      new_CodecovClient token svc = Inr \<lparr>apiToken = token, defaultService = svc\<rparr>) \<and>
   (env = None \<or> env = Some [] \<longrightarrow>
      codecov_list_repositories env b1 j1 owner o1 \<lparr>clientInstance = None, issued = sent\<rparr> =
        (missing_token_result, \<lparr>clientInstance = None, issued = sent\<rparr>)) \<and>
   (env = None \<or> env = Some [] \<longrightarrow>
      codecov_get_repository env b2 j2 owner repo service \<lparr>clientInstance = None, issued = sent\<rparr> =
        (missing_token_result, \<lparr>clientInstance = None, issued = sent\<rparr>)) \<and>
   (env = None \<or> env = Some [] \<longrightarrow>
      codecov_get_coverage_totals env b3 j3 owner repo o3 \<lparr>clientInstance = None, issued = sent\<rparr> =
        (missing_token_result, \<lparr>clientInstance = None, issued = sent\<rparr>)) \<and>
   (env = None \<or> env = Some [] \<longrightarrow>
      codecov_get_coverage_tree env b5 owner repo o5 \<lparr>clientInstance = None, issued = sent\<rparr> =
        (missing_token_result, \<lparr>clientInstance = None, issued = sent\<rparr>)) \<and>
   (env = None \<or> env = Some [] \<longrightarrow>
      codecov_compare_coverage env b6 j6 owner repo o6 \<lparr>clientInstance = None, issued = sent\<rparr> =
        (missing_token_result, \<lparr>clientInstance = None, issued = sent\<rparr>)) \<and>
   (env = None \<or> env = Some [] \<longrightarrow>
      codecov_list_commits env b7 j7 owner repo o7 \<lparr>clientInstance = None, issued = sent\<rparr> =
        (missing_token_result, \<lparr>clientInstance = None, issued = sent\<rparr>)) \<and>
   (env = None \<or> env = Some [] \<longrightarrow>
      codecov_list_pulls env b8 j8 owner repo o8 \<lparr>clientInstance = None, issued = sent\<rparr> =
        (missing_token_result, \<lparr>clientInstance = None, issued = sent\<rparr>))"
proof -
  have "env = None \<or> env = Some [] \<longrightarrow>
      getCodecovClient env None =
        Inl (PlainError (''CODECOV_API_TOKEN environment variable is required. '' @
          ''Get your token from Codecov settings: Settings > Access > Generate Token'')) \<and>
      tool_handler env backend build summarize \<lparr>clientInstance = None, issued = sent\<rparr> =
        (missing_token_result, \<lparr>clientInstance = None, issued = sent\<rparr>)"
    using tool_handler_missing_token by blast
  moreover have "env = None \<or> env = Some [] \<longrightarrow>
      codecov_get_file_coverage env b4 j4 enc owner repo path o3 \<lparr>clientInstance = None, issued = sent\<rparr> =
        (missing_token_result, \<lparr>clientInstance = None, issued = sent\<rparr>)"
    by (simp add: codecov_get_file_coverage_def tool_handler_missing_token)
  moreover have "new_CodecovClient [] svc =
     Inl (PlainError ''CODECOV_API_TOKEN is required. Set it as an environment variable.'')"
    by (simp add: new_CodecovClient_def)
  moreover have "token \<noteq> [] \<longrightarrow>
      new_CodecovClient token svc = Inr \<lparr>apiToken = token, defaultService = svc\<rparr>"
    by (simp add: new_CodecovClient_def)
  moreover have "env = None \<or> env = Some [] \<longrightarrow>
      codecov_list_repositories env b1 j1 owner o1 \<lparr>clientInstance = None, issued = sent\<rparr> =
        (missing_token_result, \<lparr>clientInstance = None, issued = sent\<rparr>)"
    by (simp add: codecov_list_repositories_def tool_handler_missing_token)
  moreover have "env = None \<or> env = Some [] \<longrightarrow>
      codecov_get_repository env b2 j2 owner repo service \<lparr>clientInstance = None, issued = sent\<rparr> =
        (missing_token_result, \<lparr>clientInstance = None, issued = sent\<rparr>)"
    by (simp add: codecov_get_repository_def tool_handler_missing_token)
  moreover have "env = None \<or> env = Some [] \<longrightarrow>
      codecov_get_coverage_totals env b3 j3 owner repo o3 \<lparr>clientInstance = None, issued = sent\<rparr> =
        (missing_token_result, \<lparr>clientInstance = None, issued = sent\<rparr>)"
    by (simp add: codecov_get_coverage_totals_def tool_handler_missing_token)
  moreover have "env = None \<or> env = Some [] \<longrightarrow>
      codecov_get_coverage_tree env b5 owner repo o5 \<lparr>clientInstance = None, issued = sent\<rparr> =
        (missing_token_result, \<lparr>clientInstance = None, issued = sent\<rparr>)"
    by (simp add: codecov_get_coverage_tree_def tool_handler_missing_token)
  moreover have "env = None \<or> env = Some [] \<longrightarrow>
      codecov_compare_coverage env b6 j6 owner repo o6 \<lparr>clientInstance = None, issued = sent\<rparr> =
        (missing_token_result, \<lparr>clientInstance = None, issued = sent\<rparr>)"
    by (simp add: codecov_compare_coverage_def tool_handler_missing_token)
  moreover have "env = None \<or> env = Some [] \<longrightarrow>
      codecov_list_commits env b7 j7 owner repo o7 \<lparr>clientInstance = None, issued = sent\<rparr> =
        (missing_token_result, \<lparr>clientInstance = None, issued = sent\<rparr>)"
    by (simp add: codecov_list_commits_def tool_handler_missing_token)
  moreover have "env = None \<or> env = Some [] \<longrightarrow>
      codecov_list_pulls env b8 j8 owner repo o8 \<lparr>clientInstance = None, issued = sent\<rparr> =
        (missing_token_result, \<lparr>clientInstance = None, issued = sent\<rparr>)"
    by (simp add: codecov_list_pulls_def tool_handler_missing_token)
  ultimately show ?thesis
    by (intro conjI) assumption+
qed

theorem missing_token_fails_before_any_request_witness:
  "getCodecovClient None None =
     Inl (PlainError ''CODECOV_API_TOKEN environment variable is required. Get your token from Codecov settings: Settings > Access > Generate Token'') \<and>
   codecov_get_file_coverage None (\<lambda>q. Inl OtherThrown) (\<lambda>s. []) (\<lambda>p. p) ''owner'' ''repo''
       ''src/a.ts'' \<lparr>ro_service = None, ro_sha = None, ro_branch = None\<rparr>
       \<lparr>clientInstance = None, issued = []\<rparr> =
     (missing_token_result, \<lparr>clientInstance = None, issued = []\<rparr>) \<and>
   new_CodecovClient [] github =
     Inl (PlainError ''CODECOV_API_TOKEN is required. Set it as an environment variable.'') \<and>
   new_CodecovClient ''token'' github = Inr \<lparr>apiToken = ''token'', defaultService = github\<rparr>"
proof -
  let ?o = "\<lparr>ro_service = None, ro_sha = None, ro_branch = None\<rparr>"
  let ?b = "\<lambda>q::request. (Inl OtherThrown :: transport_failure + FileCoverageReport)"
  note t = missing_token_fails_before_any_request [where env = None and sent = "[]"
      and ?b4.0 = ?b and ?j4.0 = "\<lambda>s. []" and enc = "\<lambda>p. p" and owner = "''owner''"
      and repo = "''repo''" and path = "''src/a.ts''" and ?o3.0 = ?o and svc = github
      and token = "''token''" and backend = ?b
      and build = "\<lambda>c. \<lparr>url = [], query = Map.empty\<rparr>" and summarize = "\<lambda>r. Inr []"]
  from t [THEN conjunct1]
  have a: "getCodecovClient None None =
     Inl (PlainError ''CODECOV_API_TOKEN environment variable is required. Get your token from Codecov settings: Settings > Access > Generate Token'')"
    by simp
  from t [THEN conjunct2, THEN conjunct1]
  have b: "codecov_get_file_coverage None ?b (\<lambda>s. []) (\<lambda>p. p) ''owner'' ''repo''
       ''src/a.ts'' ?o \<lparr>clientInstance = None, issued = []\<rparr> =
     (missing_token_result, \<lparr>clientInstance = None, issued = []\<rparr>)"
    by simp
  from t [THEN conjunct2, THEN conjunct2, THEN conjunct1]
  have c: "new_CodecovClient [] github =
     Inl (PlainError ''CODECOV_API_TOKEN is required. Set it as an environment variable.'')"
    by simp
  from t [THEN conjunct2, THEN conjunct2, THEN conjunct2, THEN conjunct1]
  have d: "new_CodecovClient ''token'' github = Inr \<lparr>apiToken = ''token'', defaultService = github\<rparr>"
    by simp
  from a b c d show ?thesis
    by simp
qed

subsection \<open>Query parameters of the list operations\<close>

lemma set_if_text_apply:
  "set_if_text k v ps k' =
     (if k' = k \<and> v \<noteq> None \<and> v \<noteq> Some [] then map_option PStr v else ps k')"
  by (cases v) (simp_all add: set_if_text_def)

lemma set_if_number_apply:
  "set_if_number k v ps k' =
     (if k' = k \<and> v \<noteq> None \<and> v \<noteq> Some 0 then map_option PNum v else ps k')"
  by (cases v) (simp_all add: set_if_number_def)

lemma listRepositories_params_apply:
  "listRepositories_params options k =
     (if k = ''names'' \<and> lr_names options \<noteq> None \<and> lr_names options \<noteq> Some []
        then map_option (\<lambda>ns. PStr (js_join '','' ns)) (lr_names options)
      else if k = ''active'' then map_option PBool (lr_active options)
      else if k = ''page'' \<and> lr_page options \<noteq> None \<and> lr_page options \<noteq> Some 0
        then map_option PNum (lr_page options)
      else if k = ''page_size'' then Some (PNum (page_size_or_default (lr_pageSize options)))
      else None)"
  by (cases "lr_names options"; cases "lr_active options")
     (simp_all add: listRepositories_params_def Let_def set_if_number_apply)

lemma listCommits_params_apply:
  "listCommits_params options k =
     (if k = ''branch'' \<and> lc_branch options \<noteq> None \<and> lc_branch options \<noteq> Some []
        then map_option PStr (lc_branch options)
      else if k = ''page'' \<and> lc_page options \<noteq> None \<and> lc_page options \<noteq> Some 0
        then map_option PNum (lc_page options)
      else if k = ''page_size'' then Some (PNum (page_size_or_default (lc_pageSize options)))
      else None)"
  by (simp add: listCommits_params_def Let_def set_if_number_apply set_if_text_apply)

lemma pull_state_name_nonempty: "pull_state_name s \<noteq> []"
  by (cases s) (simp_all add: pull_state_name_def)

lemma listPullRequests_params_apply:
  "listPullRequests_params options k =
     (if k = ''state'' then map_option (\<lambda>s. PStr (pull_state_name s)) (lp_state options)
      else if k = ''page'' \<and> lp_page options \<noteq> None \<and> lp_page options \<noteq> Some 0
        then map_option PNum (lp_page options)
      else if k = ''page_size'' then Some (PNum (page_size_or_default (lp_pageSize options)))
      else None)"
  by (cases "lp_state options")
     (simp_all add: listPullRequests_params_def Let_def set_if_number_apply set_if_text_apply
       pull_state_name_nonempty)

lemma dom_subsetI:
  assumes "\<And>k. k \<notin> A \<Longrightarrow> m k = None"
  shows "dom m \<subseteq> A"
proof
  fix k
  assume "k \<in> dom m"
  then have some: "m k \<noteq> None" by (simp add: dom_def)
  show "k \<in> A"
  proof (rule ccontr)
    assume "k \<notin> A"
    then have "m k = None" by (rule assms)
    with some show False by simp
  qed
qed

text \<open>
  C7, as amended. In the query of a list operation \<open>page_size\<close> is the caller's
  \<open>pageSize\<close> when it is given and not zero, and 25 otherwise; \<open>page\<close> is sent exactly
  when a page other than zero is given, \<open>branch\<close> exactly when a branch other than the
  empty text is given, \<open>names\<close> exactly when a non-empty array is given, as its names
  joined by commas, the boolean \<open>active\<close> and the \<open>state\<close> exactly when they are
  given; nothing else is sent.
\<close>

theorem list_query_parameters:
  "query (listRepositories_request client owner o1) = listRepositories_params o1 \<and>
   query (listCommits_request client owner repo o2) = listCommits_params o2 \<and>
   query (listPullRequests_request client owner repo o3) = listPullRequests_params o3 \<and>
   listRepositories_params o1 ''page_size'' =
     Some (PNum (case lr_pageSize o1 of None \<Rightarrow> 25 | Some n \<Rightarrow> if n = 0 then 25 else n)) \<and>
   listCommits_params o2 ''page_size'' =
     Some (PNum (case lc_pageSize o2 of None \<Rightarrow> 25 | Some n \<Rightarrow> if n = 0 then 25 else n)) \<and>
   listPullRequests_params o3 ''page_size'' =
     Some (PNum (case lp_pageSize o3 of None \<Rightarrow> 25 | Some n \<Rightarrow> if n = 0 then 25 else n)) \<and>
   listRepositories_params o1 ''page'' =
     (case lr_page o1 of None \<Rightarrow> None | Some n \<Rightarrow> if n = 0 then None else Some (PNum n)) \<and>
   listCommits_params o2 ''page'' =
     (case lc_page o2 of None \<Rightarrow> None | Some n \<Rightarrow> if n = 0 then None else Some (PNum n)) \<and>
   listPullRequests_params o3 ''page'' =
     (case lp_page o3 of None \<Rightarrow> None | Some n \<Rightarrow> if n = 0 then None else Some (PNum n)) \<and>
   listRepositories_params o1 ''active'' = map_option PBool (lr_active o1) \<and>
   listRepositories_params o1 ''names'' =
     (case lr_names o1 of None \<Rightarrow> None
      | Some ns \<Rightarrow> if ns = [] then None else Some (PStr (js_join '','' ns))) \<and>
   listCommits_params o2 ''branch'' =
     (case lc_branch o2 of None \<Rightarrow> None | Some b \<Rightarrow> if b = [] then None else Some (PStr b)) \<and>
   listPullRequests_params o3 ''state'' =
     map_option (\<lambda>s. PStr (pull_state_name s)) (lp_state o3) \<and>
   dom (listRepositories_params o1) \<subseteq> {''page_size'', ''page'', ''active'', ''names''} \<and>
   dom (listCommits_params o2) \<subseteq> {''page_size'', ''page'', ''branch''} \<and>
   dom (listPullRequests_params o3) \<subseteq> {''page_size'', ''page'', ''state''}"
proof -
  have "query (listRepositories_request client owner o1) = listRepositories_params o1"
    by (simp add: listRepositories_request_def)
  moreover have "query (listCommits_request client owner repo o2) = listCommits_params o2"
    by (simp add: listCommits_request_def)
  moreover have "query (listPullRequests_request client owner repo o3) = listPullRequests_params o3"
    by (simp add: listPullRequests_request_def)
  moreover have "listRepositories_params o1 ''page_size'' =
     Some (PNum (case lr_pageSize o1 of None \<Rightarrow> 25 | Some n \<Rightarrow> if n = 0 then 25 else n))"
    by (simp add: listRepositories_params_apply page_size_or_default_def DEFAULT_PAGE_SIZE_def
        split: option.splits)
  moreover have "listCommits_params o2 ''page_size'' =
     Some (PNum (case lc_pageSize o2 of None \<Rightarrow> 25 | Some n \<Rightarrow> if n = 0 then 25 else n))"
    by (simp add: listCommits_params_apply page_size_or_default_def DEFAULT_PAGE_SIZE_def
        split: option.splits)
  moreover have "listPullRequests_params o3 ''page_size'' =
     Some (PNum (case lp_pageSize o3 of None \<Rightarrow> 25 | Some n \<Rightarrow> if n = 0 then 25 else n))"
    by (simp add: listPullRequests_params_apply page_size_or_default_def DEFAULT_PAGE_SIZE_def
        split: option.splits)
  moreover have "listRepositories_params o1 ''page'' =
     (case lr_page o1 of None \<Rightarrow> None | Some n \<Rightarrow> if n = 0 then None else Some (PNum n))"
    by (simp add: listRepositories_params_apply split: option.splits)
  moreover have "listCommits_params o2 ''page'' =
     (case lc_page o2 of None \<Rightarrow> None | Some n \<Rightarrow> if n = 0 then None else Some (PNum n))"
    by (simp add: listCommits_params_apply split: option.splits)
  moreover have "listPullRequests_params o3 ''page'' =
     (case lp_page o3 of None \<Rightarrow> None | Some n \<Rightarrow> if n = 0 then None else Some (PNum n))"
    by (simp add: listPullRequests_params_apply split: option.splits)
  moreover have "listRepositories_params o1 ''active'' = map_option PBool (lr_active o1)"
    by (simp add: listRepositories_params_apply)
  moreover have "listRepositories_params o1 ''names'' =
     (case lr_names o1 of None \<Rightarrow> None
      | Some ns \<Rightarrow> if ns = [] then None else Some (PStr (js_join '','' ns)))"
    by (simp add: listRepositories_params_apply split: option.splits)
  moreover have "listCommits_params o2 ''branch'' =
     (case lc_branch o2 of None \<Rightarrow> None | Some b \<Rightarrow> if b = [] then None else Some (PStr b))"
    by (simp add: listCommits_params_apply split: option.splits)
  moreover have "listPullRequests_params o3 ''state'' =
     map_option (\<lambda>s. PStr (pull_state_name s)) (lp_state o3)"
    by (simp add: listPullRequests_params_apply)
  moreover have "dom (listRepositories_params o1) \<subseteq> {''page_size'', ''page'', ''active'', ''names''}"
    by (rule dom_subsetI) (simp add: listRepositories_params_apply)
  moreover have "dom (listCommits_params o2) \<subseteq> {''page_size'', ''page'', ''branch''}"
    by (rule dom_subsetI) (simp add: listCommits_params_apply)
  moreover have "dom (listPullRequests_params o3) \<subseteq> {''page_size'', ''page'', ''state''}"
    by (rule dom_subsetI) (simp add: listPullRequests_params_apply)
  ultimately show ?thesis
    by (intro conjI) assumption+
qed

theorem list_query_parameters_witness:
  "listRepositories_params
     \<lparr>lr_service = None, lr_page = Some 2, lr_pageSize = None, lr_active = Some False,
      lr_names = Some [''api'', ''web'']\<rparr> ''page_size'' = Some (PNum 25) \<and>
   listRepositories_params
     \<lparr>lr_service = None, lr_page = Some 2, lr_pageSize = None, lr_active = Some False,
      lr_names = Some [''api'', ''web'']\<rparr> ''page'' = Some (PNum 2) \<and>
   listRepositories_params
     \<lparr>lr_service = None, lr_page = Some 2, lr_pageSize = None, lr_active = Some False,
      lr_names = Some [''api'', ''web'']\<rparr> ''active'' = Some (PBool False) \<and>
   listRepositories_params
     \<lparr>lr_service = None, lr_page = Some 2, lr_pageSize = None, lr_active = Some False,
      lr_names = Some [''api'', ''web'']\<rparr> ''names'' = Some (PStr ''api,web'') \<and>
   listCommits_params
     \<lparr>lc_service = None, lc_page = None, lc_pageSize = Some 50, lc_branch = Some ''main''\<rparr>
     ''page_size'' = Some (PNum 50) \<and>
   listCommits_params
     \<lparr>lc_service = None, lc_page = None, lc_pageSize = Some 50, lc_branch = Some ''main''\<rparr>
     ''page'' = None \<and>
   listCommits_params
     \<lparr>lc_service = None, lc_page = None, lc_pageSize = Some 50, lc_branch = Some ''main''\<rparr>
     ''branch'' = Some (PStr ''main'')"
proof -
  let ?o1 = "\<lparr>lr_service = None, lr_page = Some 2, lr_pageSize = None, lr_active = Some False,
      lr_names = Some [''api'', ''web'']\<rparr>"
  let ?o2 = "\<lparr>lc_service = None, lc_page = None, lc_pageSize = Some 50, lc_branch = Some ''main''\<rparr>"
  note t = list_query_parameters [where ?o1.0 = ?o1 and ?o2.0 = ?o2]
  from t show ?thesis
    by simp
qed

theorem empty_parameters_counterexample:
  "listCommits_params
     \<lparr>lc_service = None, lc_page = None, lc_pageSize = None, lc_branch = Some []\<rparr> ''branch'' = None \<and>
   listRepositories_params
     \<lparr>lr_service = None, lr_page = None, lr_pageSize = None, lr_active = None,
      lr_names = Some [[]]\<rparr> ''names'' = Some (PStr [])"
  by (simp add: listCommits_params_apply listRepositories_params_apply)

subsection \<open>Tree rendering\<close>

lemma js_repeat_spaces: "js_repeat ''  '' d = replicate (2 * d) (CHR '' '')"
  by (induction d) simp_all

lemma js_join_Cons: "js_join sep (x # xs) = x @ concat (map (\<lambda>y. sep @ y) xs)"
  by (induction xs arbitrary: x) simp_all

lemma formatNode_line:
  "formatNode n d =
     (case children n of
        None \<Rightarrow> node_line (n, d)
      | Some cs \<Rightarrow> if length cs > 0 then formatChildren (node_line (n, d)) cs (d + 1)
                   else node_line (n, d))"
  by (cases n) (auto simp: node_line_def is_directory_def js_repeat_spaces Let_def
      split: option.splits)

lemma format_preorder:
  "formatNode n d = node_line (n, d) @ concat (map (\<lambda>p. [newline] @ node_line p) (tl (preorder n d)))"
  "formatChildren line cs d = line @ concat (map (\<lambda>p. [newline] @ node_line p) (preorder_list cs d))"
proof (induction n d and line cs d rule: formatNode_formatChildren.induct)
  case (1 nm fp cov lns hts mss chs depth)
  let ?n = "CoverageTreeNode nm fp cov lns hts mss chs"
  show ?case
  proof (cases chs)
    case None
    then show ?thesis by (simp add: formatNode_line del: formatNode.simps)
  next
    case (Some cs)
    show ?thesis
    proof (cases "length cs > 0")
      case True
      from True have ne: "cs \<noteq> []" by simp
      have "formatChildren (node_line (?n, depth)) cs (depth + 1) =
          node_line (?n, depth) @
          concat (map (\<lambda>p. [newline] @ node_line p) (preorder_list cs (depth + 1)))"
        using "1" [OF refl refl refl Some True]
        by (simp add: node_line_def is_directory_def js_repeat_spaces Some ne)
      with Some True show ?thesis
        by (simp add: formatNode_line del: formatNode.simps)
    next
      case False
      with Some show ?thesis by (simp add: formatNode_line del: formatNode.simps)
    qed
  qed
next
  case (2 line depth)
  then show ?case by simp
next
  case (3 line child rest depth)
  have nonempty: "preorder child depth = hd (preorder child depth) # tl (preorder child depth)"
    by (cases child) simp
  have hd: "hd (preorder child depth) = (child, depth)"
    by (cases child) simp
  from 3 nonempty hd show ?case
    by (metis (no_types, lifting) append.assoc concat.simps(2) concat_append list.simps(9)
        map_append preorder_list.simps(2) formatChildren.simps(2))
qed


lemma preorder_unfold:
  "preorder n d = (n, d) # preorder_list (case children n of None \<Rightarrow> [] | Some cs \<Rightarrow> cs) (d + 1)"
  by (cases n) (simp split: option.splits)

lemma preorder_list_concat: "preorder_list cs d = concat (map (\<lambda>c. preorder c d) cs)"
  by (induction cs) simp_all

lemma formatNode_join: "formatNode n d = js_join [newline] (map node_line (preorder n d))"
  by (simp add: format_preorder(1) preorder_unfold [of n d] js_join_Cons comp_def
      del: formatNode.simps)

lemma node_line_indent:
  "takeWhile (\<lambda>c. c = CHR '' '') (node_line (n, d)) = replicate (2 * d) (CHR '' '')"
proof -
  have tw: "takeWhile (\<lambda>c. c = a) (replicate k a @ b # rest) = replicate k a" if "b \<noteq> a"
    for a b :: char and k rest
    using that by (induction k) simp_all
  show ?thesis
    by (cases "is_directory n") (simp_all add: node_line_def icon_dir_def icon_file_def tw)
qed

lemma is_directory_iff: "is_directory n \<longleftrightarrow> (\<exists>c cs. children n = Some (c # cs))"
  by (cases "children n") (auto simp: is_directory_def neq_Nil_conv)

lemma toFixed_one_decimal:
  "toFixed 1 c = (if c < 0 then ''-'' else []) @ show_nat (scaled 1 c div 10) @ ''.'' @
     [digit_char (scaled 1 c mod 10)]"
  using toFixed_shape [of 0 c] by simp

lemma foldl_append_text:
  "foldl (\<lambda>acc x. acc @ f x) acc xs = acc @ concat (map f xs)"
  by (induction xs arbitrary: acc) simp_all

lemma coverage_tree_text_concat:
  "coverage_tree_text roots =
     ''Coverage Tree:'' @ [newline, newline] @ concat (map (\<lambda>r. formatNode r 0 @ [newline]) roots)"
  unfolding coverage_tree_text_def by (simp only: foldl_append_text append_assoc)

text \<open>
  C8. The text of a tree is the lines of its nodes in pre-order, one line for each
  node, joined by line breaks. The line of a node at nesting level \<open>d\<close> starts with
  exactly \<open>2 * d\<close> spaces, the children of a node being one level below it, followed
  by the icon, the name, the coverage with one decimal digit, or \<open>N/A\<close> when it is
  absent, and the fraction of hits and lines; the icon is that of a directory exactly
  when the node has a non-empty sequence of children. The text is a function of the
  tree alone.
\<close>

theorem tree_rendering:
  "formatNode n d = js_join [newline] (map node_line (preorder n d)) \<and>
   preorder n d =
     (n, d) # preorder_list (case children n of None \<Rightarrow> [] | Some cs \<Rightarrow> cs) (d + 1) \<and>
   preorder_list ns d = concat (map (\<lambda>c. preorder c d) ns) \<and>
   node_line (n, d) =
     replicate (2 * d) (CHR '' '') @ (if is_directory n then icon_dir else icon_file) @
     '' '' @ node_name n @ '' - '' @
     (case node_coverage n of None \<Rightarrow> ''N/A'' | Some c \<Rightarrow> toFixed 1 c) @
     ''% ('' @ show_int (node_hits n) @ ''/'' @ show_int (node_lines n) @ '' lines)'' \<and>
   takeWhile (\<lambda>c. c = CHR '' '') (node_line (n, d)) = replicate (2 * d) (CHR '' '') \<and>
   (is_directory n \<longleftrightarrow> (\<exists>c cs. children n = Some (c # cs))) \<and>
   toFixed 1 x =
     (if x < 0 then ''-'' else []) @ show_nat (scaled 1 x div 10) @ ''.'' @
     [digit_char (scaled 1 x mod 10)] \<and>
   coverage_tree_text roots =
     ''Coverage Tree:'' @ [newline, newline] @
     concat (map (\<lambda>r. formatNode r 0 @ [newline]) roots) \<and>
   formatNode n d = formatNode n d"
proof -
  have "node_line (n, d) =
     replicate (2 * d) (CHR '' '') @ (if is_directory n then icon_dir else icon_file) @
     '' '' @ node_name n @ '' - '' @
     (case node_coverage n of None \<Rightarrow> ''N/A'' | Some c \<Rightarrow> toFixed 1 c) @
     ''% ('' @ show_int (node_hits n) @ ''/'' @ show_int (node_lines n) @ '' lines)''"
    by (simp add: node_line_def)
  moreover have "formatNode n d = formatNode n d"
    by (rule refl)
  moreover note formatNode_join [of n d] preorder_unfold [of n d] preorder_list_concat [of ns d]
    node_line_indent [of n d] is_directory_iff [of n] toFixed_one_decimal [of x]
    coverage_tree_text_concat [of roots]
  ultimately show ?thesis
    by (intro conjI) assumption+
qed

theorem tree_rendering_witness:
  "formatNode example_tree 0 =
     icon_dir @ '' src - 90.0% (9/10 lines)'' @ [newline] @
     ''  '' @ icon_file @ '' a.ts - 85.2% (7/8 lines)'' @ [newline] @
     ''  '' @ icon_file @ '' b.ts - N/A% (2/2 lines)'' \<and>
   map snd (preorder example_tree 0) = [0, 1, 1] \<and>
   map (node_name \<circ> fst) (preorder example_tree 0) = [''src'', ''a.ts'', ''b.ts''] \<and>
   map (is_directory \<circ> fst) (preorder example_tree 0) = [True, False, False]"
proof -
  note t = tree_rendering [of example_tree 0]
  from t [THEN conjunct1]
  have "formatNode example_tree 0 = js_join [newline] (map node_line (preorder example_tree 0))" .
  moreover have "js_join [newline] (map node_line (preorder example_tree 0)) =
     icon_dir @ '' src - 90.0% (9/10 lines)'' @ [newline] @
     ''  '' @ icon_file @ '' a.ts - 85.2% (7/8 lines)'' @ [newline] @
     ''  '' @ icon_file @ '' b.ts - N/A% (2/2 lines)''"
    by code_simp
  moreover have "map snd (preorder example_tree 0) = [0, 1, 1]"
    by (simp add: example_tree_def)
  moreover have "map (node_name \<circ> fst) (preorder example_tree 0) = [''src'', ''a.ts'', ''b.ts'']"
    by (simp add: example_tree_def)
  moreover have "map (is_directory \<circ> fst) (preorder example_tree 0) = [True, False, False]"
    by (simp add: example_tree_def is_directory_def)
  ultimately show ?thesis
    by simp
qed

subsection \<open>Commit messages\<close>

lemma js_split_nonempty: "js_split sep s \<noteq> []"
  by (induction s) (auto split: list.splits)

lemma first_element_js_split:
  "first_element (js_split sep s) = Some (takeWhile (\<lambda>c. c \<noteq> sep) s)"
proof (induction s)
  case Nil
  then show ?case by (simp add: first_element_def)
next
  case (Cons c cs)
  then show ?case
    by (cases "js_split sep cs") (auto simp: first_element_def js_split_nonempty)
qed

text \<open>
  C10. In the summary of \<open>listCommits\<close> the message of every commit is the prefix of
  the backend's message up to its first newline, and it is null when the backend's
  message is absent.
\<close>

theorem commit_message_first_line:
  "map cs_message (commits (list_commits_summary result)) =
     map (\<lambda>c. map_option (takeWhile (\<lambda>ch. ch \<noteq> newline)) (message c)) (results result)"
proof -
  have "cs_message (summarize_commit c) =
          map_option (takeWhile (\<lambda>ch. ch \<noteq> newline)) (message c)" for c
    by (cases "message c") (simp_all add: summarize_commit_def first_element_js_split)
  then show ?thesis
    by (simp add: list_commits_summary_def)
qed

end
